theory Spec2Isabelle
  imports Complex_Main
begin

section \<open>JavaScript values read and written by the scripts\<close>

text \<open>
  Strings are lists of characters; the characters the scripts test for
  (the suffix \<^verbatim>\<open>.csv\<close> and the five characters of \<^verbatim>\<open>escapeHtml\<close>) are ASCII, so
  the unit of a string (a UTF-16 code unit in the browser, a byte of the UTF-8
  text here) makes no difference to them.

  \<^verbatim>\<open>String.prototype.endsWith\<close>: the search string is compared with the last
  characters of the receiver; a receiver shorter than the search string never
  ends with it.
\<close>

definition endsWith :: "string \<Rightarrow> string \<Rightarrow> bool" where
  "endsWith s searchString =
     (let len = length s; searchLength = length searchString
      in if len < searchLength then False
         else drop (len - searchLength) s = searchString)"

text \<open>Decimal rendering of a non-negative integer, as a template literal prints it.\<close>

fun toString :: "nat \<Rightarrow> string" where
  "toString n =
     (if n < 10 then [''0123456789'' ! n]
      else toString (n div 10) @ [''0123456789'' ! (n mod 10)])"

declare toString.simps [simp del]

text \<open>
  A property of a parsed JSON object is \<open>None\<close> when the object lacks it
  (\<^verbatim>\<open>undefined\<close>). \<open>orElse\<close> is the expression \<^verbatim>\<open>v || d\<close> on a string property
  (a missing and an empty string are falsy); \<open>template\<close>, \<open>templateNat\<close> and
  \<open>templateBool\<close> are what a template literal or a string concatenation prints.
\<close>

definition orElse :: "string option \<Rightarrow> string \<Rightarrow> string" where
  "orElse v d = (case v of None \<Rightarrow> d | Some t \<Rightarrow> if t = [] then d else t)"

definition template :: "string option \<Rightarrow> string" where
  "template v = (case v of None \<Rightarrow> ''undefined'' | Some t \<Rightarrow> t)"

definition templateNat :: "nat option \<Rightarrow> string" where
  "templateNat v = (case v of None \<Rightarrow> ''undefined'' | Some n \<Rightarrow> toString n)"

definition templateBool :: "bool \<Rightarrow> string" where
  "templateBool b = (if b then ''true'' else ''false'')"

section \<open>The product page: data\<close>

record js_file =
  file_name :: string
  file_content :: string

record product =
  product_id :: nat
  product_sku :: string
  product_name :: string
  product_description :: string
  product_active :: bool

text \<open>
  The object the product form is read into by \<^verbatim>\<open>saveProduct\<close>; \<open>form_id\<close> is
  the value of the hidden input \<^verbatim>\<open>productId\<close>, a string.
\<close>

record product_form =
  form_id :: string
  form_sku :: string
  form_name :: string
  form_description :: string
  form_active :: bool

datatype body = NoBody | FormData js_file | ProductJson product_form

text \<open>
  A promise that is waiting for the server, named by the code that runs when it
  settles. \<open>KPoll h\<close> is a progress request issued by the timer with handle \<open>h\<close>:
  its callbacks close over that handle.
\<close>

datatype continuation = KUpload | KPoll nat | KList | KSave | KDelete | KBulk

text \<open>A call of \<^verbatim>\<open>fetch\<close>: what is sent, and the code that waits for the answer.\<close>

record request =
  req_method :: string
  req_url :: string
  req_body :: body
  req_then :: continuation

text \<open>
  The properties of a response body that the script reads. The server is not
  part of the sources; the types are those of its HTTP contract, and every
  property may be missing.
\<close>

record json_data =
  task_id :: "string option"
  progress :: "nat option"
  status :: "string option"
  state :: "string option"
  products :: "product list option"
  page :: "nat option"
  total :: "nat option"
  message :: "string option"
  deleted_count :: "nat option"

text \<open>
  How a \<^verbatim>\<open>fetch\<close> promise chain settles: \<open>Failed err\<close> is a rejection (the
  network failed, the body was not JSON, or the body was \<^verbatim>\<open>null\<close> so that the
  first property access threw), with \<open>err\<close> the text the error prints as;
  \<open>Json d\<close> is a body that parsed to an object, whatever the HTTP status of the
  response: the scripts never read \<^verbatim>\<open>res.ok\<close> or \<^verbatim>\<open>res.status\<close>, so an error
  response with a JSON body reaches the same callback as a success.
\<close>

datatype reply = Failed string | Json json_data

text \<open>
  The state of the page: whether \<^verbatim>\<open>initEventListeners\<close> has run (the listeners
  of the product section are attached on \<^verbatim>\<open>DOMContentLoaded\<close>, those of the upload
  section when the script is read), the DOM properties the script touches, its
  globals \<^verbatim>\<open>currentFile\<close> and \<^verbatim>\<open>currentPage\<close>, and the environment: the requests
  \<^verbatim>\<open>fetch\<close> has sent (oldest first), the promises still pending, the
  timers \<^verbatim>\<open>setInterval\<close> has running (handle and the task id its callback
  closes over), the next fresh handle, and the texts \<^verbatim>\<open>confirm\<close> has asked and
  \<^verbatim>\<open>alert\<close> has shown.
\<close>

record page_state =
  listening :: bool
  uploadArea_hover :: bool
  progressContainer_display :: string
  progressBar_width :: string
  progressText_textContent :: string
  status_textContent :: string
  retryBtn_display :: string
  currentFile :: "js_file option"
  currentPage :: nat
  search_value :: string
  activeFilter_value :: string
  pageInfo_textContent :: string
  tbody_innerHTML :: string
  tbody_rows :: "string list"
  modal_display :: string
  modalTitle_textContent :: string
  productForm :: product_form
  productForm_default :: product_form
  bulkBtn_disabled :: bool
  bulkBtn_textContent :: string
  fetched :: "request list"
  pending :: "continuation list"
  intervals :: "(nat \<times> string) list"
  next_handle :: nat
  confirms :: "string list"
  alerts :: "string list"

definition perPage :: nat where
  "perPage = 20"

definition fetch :: "string \<Rightarrow> string \<Rightarrow> body \<Rightarrow> continuation \<Rightarrow> page_state \<Rightarrow> page_state" where
  "fetch m u b k s =
     s\<lparr>fetched := fetched s @ [\<lparr>req_method = m, req_url = u, req_body = b, req_then = k\<rparr>],
       pending := pending s @ [k]\<rparr>"

definition alert :: "string \<Rightarrow> page_state \<Rightarrow> page_state" where
  "alert msg s = s\<lparr>alerts := alerts s @ [msg]\<rparr>"

definition confirm :: "string \<Rightarrow> page_state \<Rightarrow> page_state" where
  "confirm msg s = s\<lparr>confirms := confirms s @ [msg]\<rparr>"

definition clearInterval :: "nat \<Rightarrow> page_state \<Rightarrow> page_state" where
  "clearInterval h s = s\<lparr>intervals := filter (\<lambda>(h', t). h' \<noteq> h) (intervals s)\<rparr>"

section \<open>Loading and rendering the product list\<close>

definition list_url :: "page_state \<Rightarrow> string" where
  "list_url s =
     ''/api/products?page='' @ toString (currentPage s) @ ''&per_page='' @ toString perPage
       @ ''&search='' @ search_value s @ ''&active='' @ activeFilter_value s"

text \<open>\<^verbatim>\<open>loadProducts\<close> up to its first \<^verbatim>\<open>await\<close>: the request is sent.\<close>

definition loadProducts :: "page_state \<Rightarrow> page_state" where
  "loadProducts s = fetch ''GET'' (list_url s) NoBody KList s"

definition product_row :: "product \<Rightarrow> string" where
  \<open>product_row p =
     ''\<newline>            <td>'' @ product_sku p @ ''</td>''
     @ ''\<newline>            <td>'' @ product_name p @ ''</td>''
     @ ''\<newline>            <td>'' @ product_description p @ ''</td>''
     @ ''\<newline>            <td>'' @ (if product_active p then ''Yes'' else ''No'') @ ''</td>''
     @ ''\<newline>            <td>''
     @ ''\<newline>                <button class="edit-btn" onclick="editProduct(''
         @ toString (product_id p) @ '', ''
         @ [CHR 0x27] @ product_sku p @ [CHR 0x27] @ '', ''
         @ [CHR 0x27] @ product_name p @ [CHR 0x27] @ '', ''
         @ [CHR 0x27] @ product_description p @ [CHR 0x27] @ '', ''
         @ templateBool (product_active p) @ '')">Edit</button>''
     @ ''\<newline>                <button class="delete-btn" onclick="deleteProduct(''
         @ toString (product_id p) @ '')">Delete</button>''
     @ ''\<newline>            </td>''
     @ ''\<newline>        ''\<close>

definition renderProductsTable :: "product list \<Rightarrow> page_state \<Rightarrow> page_state" where
  \<open>renderProductsTable ps s =
     (if ps = [] then
        s\<lparr>tbody_innerHTML :=
            ''<tr><td colspan="5" style="text-align:center;">No products found.</td></tr>'',
          tbody_rows := []\<rparr>
      else s\<lparr>tbody_innerHTML := [], tbody_rows := map product_row ps\<rparr>)\<close>

text \<open>
  \<^verbatim>\<open>Math.ceil(data.total / perPage) || 1\<close>: a missing total divides to NaN and
  a total of zero to 0, both falsy. Numbers are taken as exact reals.
\<close>

definition pageCount :: "nat option \<Rightarrow> nat" where
  "pageCount t =
     (case t of
        None \<Rightarrow> 1
      | Some n \<Rightarrow>
          (let c = nat \<lceil>real n / real perPage\<rceil> in if c = 0 then 1 else c))"

text \<open>
  The rest of \<^verbatim>\<open>loadProducts\<close>, run when its request settles. A response without
  a \<^verbatim>\<open>products\<close> array makes \<^verbatim>\<open>renderProductsTable\<close> throw after it has emptied
  the table body; the \<^verbatim>\<open>catch\<close> block then alerts.
\<close>

definition loadProducts_then :: "reply \<Rightarrow> page_state \<Rightarrow> page_state" where
  "loadProducts_then r s =
     (case r of
        Failed err \<Rightarrow> alert ''Failed to load products.'' s
      | Json d \<Rightarrow>
          (case products d of
             None \<Rightarrow>
               alert ''Failed to load products.'' (s\<lparr>tbody_innerHTML := [], tbody_rows := []\<rparr>)
           | Some ps \<Rightarrow>
               (renderProductsTable ps s)
                 \<lparr>pageInfo_textContent :=
                    ''Page '' @ templateNat (page d) @ '' of '' @ toString (pageCount (total d))\<rparr>))"

section \<open>The CSV upload and the progress poll\<close>

definition uploadCSV :: "js_file \<Rightarrow> page_state \<Rightarrow> page_state" where
  "uploadCSV f s = fetch ''POST'' ''/upload'' (FormData f) KUpload s"

datatype js_error = TypeError

text \<open>
  \<^verbatim>\<open>handleFiles\<close>: \<^verbatim>\<open>files[0]\<close> of an empty list is \<^verbatim>\<open>undefined\<close>, and
  reading its \<^verbatim>\<open>name\<close> throws before anything is written.
\<close>

definition handleFiles :: "js_file list \<Rightarrow> page_state \<Rightarrow> js_error + page_state" where
  "handleFiles files s =
     (case files of
        [] \<Rightarrow> Inl TypeError
      | f # rest \<Rightarrow>
          if \<not> endsWith (file_name f) ''.csv'' then
            Inr (s\<lparr>status_textContent := ''Please upload a valid CSV file.''\<rparr>)
          else
            Inr (uploadCSV f
                  (s\<lparr>status_textContent := [],
                     progressContainer_display := ''block'',
                     progressBar_width := ''0%'',
                     progressText_textContent := ''0%'',
                     retryBtn_display := ''none'',
                     currentFile := Some f\<rparr>)))"

text \<open>\<^verbatim>\<open>setInterval\<close> inside \<^verbatim>\<open>pollProgress\<close>: a timer with a fresh handle.\<close>

definition pollProgress :: "string \<Rightarrow> page_state \<Rightarrow> page_state" where
  "pollProgress taskId s =
     s\<lparr>intervals := intervals s @ [(next_handle s, taskId)],
       next_handle := Suc (next_handle s)\<rparr>"

definition uploadCSV_catch :: "page_state \<Rightarrow> page_state" where
  "uploadCSV_catch s =
     s\<lparr>status_textContent := ''Upload failed. Please try again.'',
       retryBtn_display := ''inline-block''\<rparr>"

definition uploadCSV_then :: "reply \<Rightarrow> page_state \<Rightarrow> page_state" where
  "uploadCSV_then r s =
     (case r of
        Failed err \<Rightarrow> uploadCSV_catch s
      | Json d \<Rightarrow>
          (case task_id d of
             None \<Rightarrow> uploadCSV_catch s
           | Some taskId \<Rightarrow>
               if taskId \<noteq> [] then pollProgress taskId s else uploadCSV_catch s))"

text \<open>One firing of the timer with handle \<open>h\<close>; a cleared timer does not fire.\<close>

definition tick :: "nat \<Rightarrow> page_state \<Rightarrow> page_state option" where
  "tick h s =
     (case map_of (intervals s) h of
        None \<Rightarrow> None
      | Some taskId \<Rightarrow> Some (fetch ''GET'' (''/progress/'' @ taskId) NoBody (KPoll h) s))"

text \<open>
  The callbacks of one progress request of the timer \<open>h\<close>: the two \<^verbatim>\<open>if\<close>
  statements run one after the other, and \<^verbatim>\<open>catch\<close> handles a rejection.
\<close>

definition pollProgress_then :: "nat \<Rightarrow> reply \<Rightarrow> page_state \<Rightarrow> page_state" where
  "pollProgress_then h r s =
     (case r of
        Failed err \<Rightarrow>
          (clearInterval h s)
            \<lparr>status_textContent := ''Error fetching progress.'',
             retryBtn_display := ''inline-block''\<rparr>
      | Json d \<Rightarrow>
          (let percent = (case progress d of None \<Rightarrow> 0 | Some n \<Rightarrow> n);
               s1 = s\<lparr>progressBar_width := toString percent @ ''%'',
                      progressText_textContent := toString percent @ ''%'',
                      status_textContent := orElse (status d) ''Processing...''\<rparr>;
               s2 = (if state d = Some ''SUCCESS'' then
                       loadProducts ((clearInterval h s1)\<lparr>status_textContent := ''Import Complete!''\<rparr>)
                     else s1);
               s3 = (if state d = Some ''FAILURE'' then
                       (clearInterval h s2)
                         \<lparr>status_textContent := ''Failed: '' @ orElse (status d) ''Error'',
                          retryBtn_display := ''inline-block''\<rparr>
                     else s2)
           in s3))"

section \<open>The product form and the destructive actions\<close>

definition openModal :: "page_state \<Rightarrow> page_state" where
  "openModal s = s\<lparr>modal_display := ''block''\<rparr>"

definition closeModal :: "page_state \<Rightarrow> page_state" where
  "closeModal s = s\<lparr>modal_display := ''none''\<rparr>"

text \<open>
  \<^verbatim>\<open>form.reset()\<close> puts every control back to the value of the markup, which
  is not part of the sources: \<open>productForm_default\<close> stands for it.
\<close>

definition openCreateModal :: "page_state \<Rightarrow> page_state" where
  "openCreateModal s =
     (openModal s)
       \<lparr>modalTitle_textContent := ''Create Product'',
        productForm := (productForm_default s)\<lparr>form_id := []\<rparr>\<rparr>"

definition editProduct :: "nat \<Rightarrow> string \<Rightarrow> string \<Rightarrow> string \<Rightarrow> bool \<Rightarrow> page_state \<Rightarrow> page_state" where
  "editProduct i sku nm description active s =
     (openModal s)
       \<lparr>modalTitle_textContent := ''Edit Product'',
        productForm :=
          \<lparr>form_id = toString i, form_sku = sku, form_name = nm,
           form_description = description, form_active = active\<rparr>\<rparr>"

text \<open>\<^verbatim>\<open>saveProduct\<close> up to its first \<^verbatim>\<open>await\<close>, and the rest of it.\<close>

definition saveProduct :: "page_state \<Rightarrow> page_state" where
  "saveProduct s =
     (let product = productForm s
      in if form_sku product = [] \<or> form_name product = [] then
           alert ''SKU and Name are required.'' s
         else fetch ''POST'' ''/api/products'' (ProductJson product) KSave s)"

definition saveProduct_then :: "reply \<Rightarrow> page_state \<Rightarrow> page_state" where
  "saveProduct_then r s =
     (case r of
        Failed err \<Rightarrow> alert ''Failed to save product.'' s
      | Json d \<Rightarrow>
          if status d = Some ''success'' then loadProducts (closeModal s)
          else alert (''Error: '' @ orElse (message d) ''Failed to save product'') s)"

text \<open>
  The answer the user gives to \<^verbatim>\<open>confirm\<close> is an argument of the two
  destructive actions.
\<close>

definition deleteProduct :: "nat \<Rightarrow> bool \<Rightarrow> page_state \<Rightarrow> page_state" where
  "deleteProduct i confirmed s =
     (let s1 = confirm ''Are you sure you want to delete this product?'' s
      in if \<not> confirmed then s1
         else fetch ''DELETE'' (''/api/products/'' @ toString i) NoBody KDelete s1)"

definition deleteProduct_then :: "reply \<Rightarrow> page_state \<Rightarrow> page_state" where
  "deleteProduct_then r s =
     (case r of
        Failed err \<Rightarrow> alert ''Failed to delete product.'' s
      | Json d \<Rightarrow>
          if status d = Some ''deleted'' then loadProducts s
          else alert ''Failed to delete product.'' s)"

definition bulkDeleteProducts :: "bool \<Rightarrow> page_state \<Rightarrow> page_state" where
  "bulkDeleteProducts confirmed s =
     (let s1 = confirm ''Are you sure? This cannot be undone.'' s
      in if \<not> confirmed then s1
         else fetch ''POST'' ''/api/products/bulk_delete'' NoBody KBulk
                (s1\<lparr>bulkBtn_disabled := True, bulkBtn_textContent := ''Deleting...''\<rparr>))"

definition bulkDeleteProducts_finally :: "page_state \<Rightarrow> page_state" where
  "bulkDeleteProducts_finally s =
     s\<lparr>bulkBtn_disabled := False, bulkBtn_textContent := ''Delete All Products''\<rparr>"

definition bulkDeleteProducts_then :: "reply \<Rightarrow> page_state \<Rightarrow> page_state" where
  "bulkDeleteProducts_then r s =
     bulkDeleteProducts_finally
       (case r of
          Failed err \<Rightarrow> alert (''Error: '' @ err) s
        | Json d \<Rightarrow>
            if status d = Some ''success'' then
              loadProducts
                (alert (''All products deleted ('' @ templateNat (deleted_count d) @ '')'') s)
            else alert (''Failed: '' @ template (message d)) s)"

section \<open>The event loop of the product page\<close>

text \<open>
  Everything that can happen on the page, one handler at a time: the DOM events
  the script listens to (with what the user chose, typed or answered), a firing
  of a timer, and the settling of a pending promise (\<open>Settle k r\<close>: the \<open>k\<close>-th
  pending one, with the reply \<open>r\<close>; replies may arrive in any order).
\<close>

datatype event =
    PageLoaded
  | DragOver
  | DragLeave
  | Drop "js_file list"
  | FileSelected "js_file list"
  | RetryClick
  | Tick nat
  | Settle nat reply
  | SearchInput string
  | ActiveFilterInput string
  | FormInput string string string bool
  | FilterClick
  | PrevClick
  | NextClick
  | CreateClick
  | CloseClick
  | SubmitForm
  | EditClick nat string string string bool
  | DeleteClick nat bool
  | BulkDeleteClick bool

definition resume :: "continuation \<Rightarrow> reply \<Rightarrow> page_state \<Rightarrow> page_state" where
  "resume k r s =
     (case k of
        KUpload \<Rightarrow> uploadCSV_then r s
      | KPoll h \<Rightarrow> pollProgress_then h r s
      | KList \<Rightarrow> loadProducts_then r s
      | KSave \<Rightarrow> saveProduct_then r s
      | KDelete \<Rightarrow> deleteProduct_then r s
      | KBulk \<Rightarrow> bulkDeleteProducts_then r s)"

text \<open>
  One event. \<open>None\<close>: the event cannot happen in this state (a listener
  that \<^verbatim>\<open>initEventListeners\<close> has not attached yet is not called, the page loads
  once, a cleared timer does not fire, a promise that is not pending does not
  settle, a disabled button is not clicked). The Edit and Delete buttons of a
  row call the global functions from their \<^verbatim>\<open>onclick\<close> attribute and need no
  listener. An exception that escapes a listener (\<^verbatim>\<open>handleFiles\<close> on an empty
  selection) leaves the state as it is.
\<close>

definition product_event :: "event \<Rightarrow> bool" where
  "product_event e =
     (case e of
        FilterClick \<Rightarrow> True | PrevClick \<Rightarrow> True | NextClick \<Rightarrow> True
      | CreateClick \<Rightarrow> True | CloseClick \<Rightarrow> True | SubmitForm \<Rightarrow> True
      | BulkDeleteClick confirmed \<Rightarrow> True
      | _ \<Rightarrow> False)"

definition step :: "event \<Rightarrow> page_state \<Rightarrow> page_state option" where
  "step e s =
     (if product_event e \<and> \<not> listening s then None
      else
       (case e of
          PageLoaded \<Rightarrow> if listening s then None else Some (loadProducts (s\<lparr>listening := True\<rparr>))
        | DragOver \<Rightarrow> Some (s\<lparr>uploadArea_hover := True\<rparr>)
        | DragLeave \<Rightarrow> Some (s\<lparr>uploadArea_hover := False\<rparr>)
        | Drop files \<Rightarrow>
            (let s1 = s\<lparr>uploadArea_hover := False\<rparr>
             in if files \<noteq> [] then
                  (case handleFiles files s1 of Inl err \<Rightarrow> Some s1 | Inr s2 \<Rightarrow> Some s2)
                else Some s1)
        | FileSelected files \<Rightarrow>
            (case handleFiles files s of Inl err \<Rightarrow> Some s | Inr s2 \<Rightarrow> Some s2)
        | RetryClick \<Rightarrow>
            (case currentFile s of None \<Rightarrow> Some s | Some f \<Rightarrow> Some (uploadCSV f s))
        | Tick h \<Rightarrow> tick h s
        | Settle k r \<Rightarrow>
            if k < length (pending s) then
              Some (resume (pending s ! k) r
                      (s\<lparr>pending := take k (pending s) @ drop (Suc k) (pending s)\<rparr>))
            else None
        | SearchInput v \<Rightarrow> Some (s\<lparr>search_value := v\<rparr>)
        | ActiveFilterInput v \<Rightarrow> Some (s\<lparr>activeFilter_value := v\<rparr>)
        | FormInput sku nm description active \<Rightarrow>
            Some (s\<lparr>productForm :=
                     (productForm s)\<lparr>form_sku := sku, form_name := nm,
                        form_description := description, form_active := active\<rparr>\<rparr>)
        | FilterClick \<Rightarrow> Some (loadProducts (s\<lparr>currentPage := 1\<rparr>))
        | PrevClick \<Rightarrow>
            if currentPage s > 1 then Some (loadProducts (s\<lparr>currentPage := currentPage s - 1\<rparr>))
            else Some s
        | NextClick \<Rightarrow> Some (loadProducts (s\<lparr>currentPage := currentPage s + 1\<rparr>))
        | CreateClick \<Rightarrow> Some (openCreateModal s)
        | CloseClick \<Rightarrow> Some (closeModal s)
        | SubmitForm \<Rightarrow> Some (saveProduct s)
        | EditClick i sku nm description active \<Rightarrow>
            Some (editProduct i sku nm description active s)
        | DeleteClick i confirmed \<Rightarrow> Some (deleteProduct i confirmed s)
        | BulkDeleteClick confirmed \<Rightarrow>
            if bulkBtn_disabled s then None else Some (bulkDeleteProducts confirmed s)))"

fun run :: "event list \<Rightarrow> page_state \<Rightarrow> page_state option" where
  "run [] s = Some s"
| "run (e # es) s = (case step e s of None \<Rightarrow> None | Some s' \<Rightarrow> run es s')"

text \<open>
  The page before any event: the globals as the script initialises them, no
  request sent, no timer running; the DOM properties, whose markup is not part
  of the sources, empty, and the bulk-delete button enabled under the label the
  script gives it back.
\<close>

definition initial_page :: page_state where
  "initial_page =
     \<lparr>listening = False, uploadArea_hover = False, progressContainer_display = [], progressBar_width = [],
      progressText_textContent = [], status_textContent = [], retryBtn_display = [],
      currentFile = None, currentPage = 1, search_value = [], activeFilter_value = [],
      pageInfo_textContent = [], tbody_innerHTML = [], tbody_rows = [], modal_display = [],
      modalTitle_textContent = [],
      productForm = \<lparr>form_id = [], form_sku = [], form_name = [], form_description = [],
                      form_active = False\<rparr>,
      productForm_default = \<lparr>form_id = [], form_sku = [], form_name = [],
                      form_description = [], form_active = False\<rparr>,
      bulkBtn_disabled = False, bulkBtn_textContent = ''Delete All Products'',
      fetched = [], pending = [], intervals = [], next_handle = 1, confirms = [], alerts = []\<rparr>"

section \<open>The webhooks page\<close>

text \<open>
  \<^verbatim>\<open>escapeHtml\<close>: the regular expression \<^verbatim>\<open>/[&<>"']/g\<close> matches one character
  at a time, from left to right, and each match is replaced by what the object
  \<^verbatim>\<open>map\<close> holds under it (a missing key would print as \<^verbatim>\<open>undefined\<close>).
\<close>

definition escape_class :: "char list" where
  \<open>escape_class = [CHR ''&'', CHR ''<'', CHR ''>'', CHR 0x22, CHR 0x27]\<close>

definition escape_map :: "(char \<times> string) list" where
  \<open>escape_map =
     [(CHR ''&'', ''&amp;''), (CHR ''<'', ''&lt;''), (CHR ''>'', ''&gt;''),
      (CHR 0x22, ''&quot;''), (CHR 0x27, ''&#039;'')]\<close>

fun escapeHtml :: "string \<Rightarrow> string" where
  "escapeHtml [] = []"
| "escapeHtml (m # rest) =
     (if m \<in> set escape_class then
        (case map_of escape_map m of None \<Rightarrow> ''undefined'' | Some e \<Rightarrow> e) @ escapeHtml rest
      else m # escapeHtml rest)"

text \<open>
  What the claim about \<^verbatim>\<open>escapeHtml\<close> says, character by character: the five
  characters become their entities, every other character stays.
\<close>

definition escapeHtml_char :: "char \<Rightarrow> string" where
  \<open>escapeHtml_char c =
     (if c = CHR ''&'' then ''&amp;''
      else if c = CHR ''<'' then ''&lt;''
      else if c = CHR ''>'' then ''&gt;''
      else if c = CHR 0x22 then ''&quot;''
      else if c = CHR 0x27 then ''&#039;''
      else [c])\<close>

record webhook =
  webhook_id :: nat
  webhook_url :: string
  webhook_event_type :: string
  webhook_enabled :: bool

definition webhook_row :: "webhook \<Rightarrow> string" where
  \<open>webhook_row w =
     ''\<newline>                    <td>'' @ escapeHtml (webhook_url w) @ ''</td>''
     @ ''\<newline>                    <td>'' @ escapeHtml (webhook_event_type w) @ ''</td>''
     @ ''\<newline>                    <td>'' @ (if webhook_enabled w then ''Yes'' else ''No'') @ ''</td>''
     @ ''\<newline>                    <td>''
     @ ''\<newline>                        <button class="action-btn edit-btn" onclick="editWebhook(''
         @ toString (webhook_id w) @ '', ''
         @ [CHR 0x27] @ escapeHtml (webhook_url w) @ [CHR 0x27] @ '', ''
         @ [CHR 0x27] @ escapeHtml (webhook_event_type w) @ [CHR 0x27] @ '', ''
         @ templateBool (webhook_enabled w) @ '')">Edit</button>''
     @ ''\<newline>                        <button class="action-btn delete-btn" onclick="deleteWebhook(''
         @ toString (webhook_id w) @ '')">Delete</button>''
     @ ''\<newline>                        <button class="action-btn test-btn" onclick="testWebhook(''
         @ toString (webhook_id w) @ '', this)">Test</button>''
     @ ''\<newline>                    </td>''
     @ ''\<newline>                ''\<close>

record webhook_form =
  webhookId_value :: string
  url_value :: string
  event_type_value :: string
  enabled_checked :: bool

record webhook_request =
  wreq_method :: string
  wreq_url :: string
  wreq_body :: "(string \<times> string \<times> bool) option"

record webhooks_page =
  webhooks_tbody_innerHTML :: string
  webhooks_tbody_rows :: "string list"
  webhooks_modal_display :: string
  webhooks_modal_fade_in :: bool
  webhooks_modalTitle :: string
  webhookForm :: webhook_form
  webhookForm_default :: webhook_form
  submitBtn_disabled :: bool
  submitBtn_textContent :: string
  webhooks_fetched :: "webhook_request list"
  webhooks_alerts :: "string list"

text \<open>
  How the request of \<^verbatim>\<open>loadWebhooks\<close> settles: rejected with an error that
  prints as \<open>err\<close>; answered by a body without a \<^verbatim>\<open>webhooks\<close> array, so that the
  callback throws (an error that prints as \<open>err\<close>) after it has emptied the
  table body; or answered by the list.
\<close>

datatype webhooks_reply = Rejected string | NoWebhooks string | Webhooks "webhook list"

definition loadWebhooks :: "webhooks_page \<Rightarrow> webhooks_page" where
  "loadWebhooks s =
     s\<lparr>webhooks_fetched := webhooks_fetched s @
          [\<lparr>wreq_method = ''GET'', wreq_url = ''/api/webhooks'', wreq_body = None\<rparr>]\<rparr>"

definition loadWebhooks_then :: "webhooks_reply \<Rightarrow> webhooks_page \<Rightarrow> webhooks_page" where
  \<open>loadWebhooks_then r s =
     (case r of
        Rejected err \<Rightarrow>
          s\<lparr>webhooks_alerts := webhooks_alerts s @ [''Failed to load webhooks: '' @ err]\<rparr>
      | NoWebhooks err \<Rightarrow>
          s\<lparr>webhooks_tbody_innerHTML := [], webhooks_tbody_rows := [],
            webhooks_alerts := webhooks_alerts s @ [''Failed to load webhooks: '' @ err]\<rparr>
      | Webhooks ws \<Rightarrow>
          if length ws = 0 then
            s\<lparr>webhooks_tbody_innerHTML :=
                ''<tr><td colspan="4" style="text-align:center; padding:20px;">No webhooks found</td></tr>'',
              webhooks_tbody_rows := []\<rparr>
          else s\<lparr>webhooks_tbody_innerHTML := [], webhooks_tbody_rows := map webhook_row ws\<rparr>)\<close>

definition openModal_webhooks :: "webhooks_page \<Rightarrow> webhooks_page" where
  "openModal_webhooks s =
     s\<lparr>webhooks_modal_display := ''flex'', webhooks_modal_fade_in := True,
       webhooks_modalTitle := ''Create Webhook'',
       webhookForm := (webhookForm_default s)\<lparr>webhookId_value := []\<rparr>\<rparr>"

definition closeModal_webhooks :: "webhooks_page \<Rightarrow> webhooks_page" where
  "closeModal_webhooks s =
     s\<lparr>webhooks_modal_fade_in := False, webhooks_modal_display := ''none''\<rparr>"

definition editWebhook :: "nat \<Rightarrow> string \<Rightarrow> string \<Rightarrow> bool \<Rightarrow> webhooks_page \<Rightarrow> webhooks_page" where
  "editWebhook i url event_type enabled s =
     (openModal_webhooks s)
       \<lparr>webhooks_modalTitle := ''Edit Webhook'',
        webhookForm :=
          \<lparr>webhookId_value = toString i, url_value = url, event_type_value = event_type,
           enabled_checked = enabled\<rparr>\<rparr>"

text \<open>\<^verbatim>\<open>saveWebhook\<close> up to the call of \<^verbatim>\<open>fetch\<close>, and its callbacks.\<close>

definition saveWebhook :: "webhooks_page \<Rightarrow> webhooks_page" where
  "saveWebhook s =
     (let i = webhookId_value (webhookForm s);
          url = url_value (webhookForm s);
          event_type = event_type_value (webhookForm s);
          enabled = enabled_checked (webhookForm s);
          method = (if i \<noteq> [] then ''PUT'' else ''POST'');
          apiUrl = (if i \<noteq> [] then ''/api/webhooks/'' @ i else ''/api/webhooks'')
      in s\<lparr>submitBtn_disabled := True, submitBtn_textContent := ''Saving...'',
           webhooks_fetched := webhooks_fetched s @
             [\<lparr>wreq_method = method, wreq_url = apiUrl,
               wreq_body = Some (url, event_type, enabled)\<rparr>]\<rparr>)"

definition saveWebhook_then :: "reply \<Rightarrow> webhooks_page \<Rightarrow> webhooks_page" where
  "saveWebhook_then r s =
     (case r of
        Failed err \<Rightarrow> s\<lparr>webhooks_alerts := webhooks_alerts s @ [''Error: '' @ err]\<rparr>
      | Json d \<Rightarrow>
          if status d = Some ''success'' then loadWebhooks (closeModal_webhooks s)
          else s\<lparr>webhooks_alerts := webhooks_alerts s @ [''Failed: '' @ template (message d)]\<rparr>)
       \<lparr>submitBtn_disabled := False, submitBtn_textContent := ''Save''\<rparr>"

definition initial_webhooks_page :: webhooks_page where
  "initial_webhooks_page =
     \<lparr>webhooks_tbody_innerHTML = [], webhooks_tbody_rows = [], webhooks_modal_display = [],
      webhooks_modal_fade_in = False, webhooks_modalTitle = [],
      webhookForm = \<lparr>webhookId_value = [], url_value = [], event_type_value = [],
                      enabled_checked = False\<rparr>,
      webhookForm_default = \<lparr>webhookId_value = [], url_value = [], event_type_value = [],
                      enabled_checked = False\<rparr>,
      submitBtn_disabled = False, submitBtn_textContent = ''Save'',
      webhooks_fetched = [], webhooks_alerts = []\<rparr>"

section \<open>Observations on states and event sequences\<close>

text \<open>The progress requests that the timer \<open>h\<close> has sent, and the list reloads.\<close>

definition poll_requests :: "nat \<Rightarrow> page_state \<Rightarrow> request list" where
  "poll_requests h s = filter (\<lambda>r. req_then r = KPoll h) (fetched s)"

definition reload_requests :: "page_state \<Rightarrow> request list" where
  "reload_requests s = filter (\<lambda>r. req_then r = KList) (fetched s)"

text \<open>
  A timer that \<^verbatim>\<open>setInterval\<close> has handed out and \<^verbatim>\<open>clearInterval\<close> has
  cleared.
\<close>

definition stopped :: "nat \<Rightarrow> page_state \<Rightarrow> bool" where
  "stopped h s = (h < next_handle s \<and> map_of (intervals s) h = None)"

text \<open>
  The file an event hands to \<^verbatim>\<open>handleFiles\<close> (the first of the list), the files
  of an event sequence that pass its validation, in order, and the files that
  the upload requests of a log carry.
\<close>

definition chosen :: "event \<Rightarrow> js_file list" where
  "chosen e =
     (case e of Drop files \<Rightarrow> take 1 files | FileSelected files \<Rightarrow> take 1 files | _ \<Rightarrow> [])"

definition validated :: "event list \<Rightarrow> js_file list" where
  "validated evs = filter (\<lambda>f. endsWith (file_name f) ''.csv'') (concat (map chosen evs))"

fun uploaded :: "request list \<Rightarrow> js_file list" where
  "uploaded [] = []"
| "uploaded (r # rs) = (case req_body r of FormData f \<Rightarrow> f # uploaded rs | _ \<Rightarrow> uploaded rs)"

text \<open>
  Every file that an upload request has carried, and the tracked file, has a
  name that ends with \<^verbatim>\<open>.csv\<close>.
\<close>

definition only_csv :: "page_state \<Rightarrow> bool" where
  "only_csv s =
     (\<forall>f \<in> set (uploaded (fetched s)) \<union> set_option (currentFile s).
        endsWith (file_name f) ''.csv'')"

text \<open>
  At most one bulk delete is waiting for the server, and while it waits the
  button is disabled under its temporary label.
\<close>

definition bulk_inv :: "page_state \<Rightarrow> bool" where
  "bulk_inv s =
     (count_list (pending s) KBulk \<le> 1
      \<and> (if KBulk \<in> set (pending s)
         then bulkBtn_disabled s \<and> bulkBtn_textContent s = ''Deleting...''
         else True))"

text \<open>What an event sequence leaves behind, \<open>None\<close> when it cannot happen.\<close>

definition urls_after :: "event list \<Rightarrow> page_state \<Rightarrow> string list option" where
  "urls_after evs s =
     (case run evs s of None \<Rightarrow> None | Some s' \<Rightarrow> Some (map req_url (fetched s')))"

definition reloads_after :: "event list \<Rightarrow> page_state \<Rightarrow> nat option" where
  "reloads_after evs s =
     (case run evs s of None \<Rightarrow> None | Some s' \<Rightarrow> Some (length (reload_requests s')))"

definition status_after :: "event list \<Rightarrow> page_state \<Rightarrow> string option" where
  "status_after evs s =
     (case run evs s of None \<Rightarrow> None | Some s' \<Rightarrow> Some (status_textContent s'))"

definition alerts_after :: "event list \<Rightarrow> page_state \<Rightarrow> string list option" where
  "alerts_after evs s = (case run evs s of None \<Rightarrow> None | Some s' \<Rightarrow> Some (alerts s'))"

definition bulkBtn_after :: "event list \<Rightarrow> page_state \<Rightarrow> (bool \<times> string) option" where
  "bulkBtn_after evs s =
     (case run evs s of
        None \<Rightarrow> None
      | Some s' \<Rightarrow> Some (bulkBtn_disabled s', bulkBtn_textContent s'))"

definition retryBtn_after :: "event list \<Rightarrow> page_state \<Rightarrow> string option" where
  "retryBtn_after evs s =
     (case run evs s of None \<Rightarrow> None | Some s' \<Rightarrow> Some (retryBtn_display s'))"

definition currentFile_after :: "event list \<Rightarrow> page_state \<Rightarrow> js_file option option" where
  "currentFile_after evs s =
     (case run evs s of None \<Rightarrow> None | Some s' \<Rightarrow> Some (currentFile s'))"

section \<open>Concrete inputs\<close>

definition no_data :: json_data where
  "no_data =
     \<lparr>task_id = None, progress = None, status = None, state = None, products = None,
      page = None, total = None, message = None, deleted_count = None\<rparr>"

definition data_csv :: js_file where
  "data_csv = \<lparr>file_name = ''data.csv'', file_content = ''sku,name''\<rparr>"

definition upper_case_csv :: js_file where
  "upper_case_csv = \<lparr>file_name = ''data.CSV'', file_content = ''sku,name''\<rparr>"

definition notes_txt :: js_file where
  "notes_txt = \<lparr>file_name = ''notes.txt'', file_content = ''hello''\<rparr>"

text \<open>
  An upload is accepted and its task polled; the timer fires twice before the
  first answer arrives.
\<close>

definition two_in_flight :: "event list" where
  "two_in_flight =
     [FileSelected [data_csv],
      Settle 0 (Json (no_data\<lparr>task_id := Some ''abc''\<rparr>)),
      Tick 1,
      Tick 1]"

definition two_successes :: "event list" where
  "two_successes =
     two_in_flight @
     [Settle 0 (Json (no_data\<lparr>state := Some ''SUCCESS''\<rparr>)),
      Settle 0 (Json (no_data\<lparr>state := Some ''SUCCESS''\<rparr>))]"

definition one_failure :: "event list" where
  "one_failure =
     [FileSelected [data_csv],
      Settle 0 (Json (no_data\<lparr>task_id := Some ''abc''\<rparr>)),
      Tick 1,
      Settle 0 (Json (no_data\<lparr>state := Some ''FAILURE'', status := Some ''Disk full''\<rparr>))]"

text \<open>
  Of two progress requests that are waiting, the one of the first tick is
  rejected.
\<close>

definition first_of_two_fails :: "event list" where
  "first_of_two_fails = two_in_flight @ [Settle 0 (Failed ''TypeError: Failed to fetch'')]"

text \<open>
  The server answers a progress request with an error status and the JSON body
  \<^verbatim>\<open>{"message": "Internal Server Error"}\<close>; a second later the timer fires again.
\<close>

definition server_error_with_body :: "event list" where
  "server_error_with_body =
     [FileSelected [data_csv],
      Settle 0 (Json (no_data\<lparr>task_id := Some ''abc''\<rparr>)),
      Tick 1,
      Settle 0 (Json (no_data\<lparr>message := Some ''Internal Server Error''\<rparr>)),
      Tick 1]"

text \<open>
  An upload fails, a file of another type is then rejected, and the retry
  button is clicked.
\<close>

definition failed_then_rejected :: "event list" where
  "failed_then_rejected =
     [FileSelected [data_csv],
      Settle 0 (Failed ''TypeError: Failed to fetch''),
      Drop [notes_txt],
      RetryClick]"

definition bulk_delete_seven :: "event list" where
  "bulk_delete_seven =
     [PageLoaded,
      BulkDeleteClick True,
      Settle 1 (Json (no_data\<lparr>status := Some ''success'', deleted_count := Some 7\<rparr>))]"

definition lamp :: product where
  \<open>lamp =
     \<lparr>product_id = 3, product_sku = ''<b>L-1</b>'', product_name = ''Lamp & Shade'',
      product_description = ''12" tall'', product_active = True\<rparr>\<close>

definition hook :: webhook where
  \<open>hook =
     \<lparr>webhook_id = 5, webhook_url = ''https://example.org/?a=1&b=<2>'',
      webhook_event_type = ''product.created'', webhook_enabled = False\<rparr>\<close>

section \<open>Auxiliary facts\<close>

lemmas handler_defs =
  loadProducts_def loadProducts_then_def renderProductsTable_def
  uploadCSV_def uploadCSV_then_def uploadCSV_catch_def pollProgress_def pollProgress_then_def
  handleFiles_def tick_def
  openModal_def closeModal_def openCreateModal_def editProduct_def
  saveProduct_def saveProduct_then_def deleteProduct_def deleteProduct_then_def
  bulkDeleteProducts_def bulkDeleteProducts_then_def bulkDeleteProducts_finally_def
  fetch_def alert_def confirm_def clearInterval_def

lemmas run_defs =
  step_def product_event_def resume_def handler_defs endsWith_def Let_def orElse_def
  list_url_def perPage_def templateNat_def toString.simps initial_page_def no_data_def
  data_csv_def notes_txt_def upper_case_csv_def

lemma endsWith_iff: "endsWith s t \<longleftrightarrow> (\<exists>stem. s = stem @ t)"
proof
  assume "endsWith s t"
  then have d: "drop (length s - length t) s = t"
    by (auto simp: endsWith_def Let_def split: if_splits)
  have "s = take (length s - length t) s @ t"
    using d by (metis append_take_drop_id)
  then show "\<exists>stem. s = stem @ t" ..
next
  assume "\<exists>stem. s = stem @ t"
  then show "endsWith s t"
    by (auto simp: endsWith_def Let_def)
qed

lemma run_Cons_Some:
  assumes "run (e # es) s = Some s'"
  obtains s1 where "step e s = Some s1" and "run es s1 = Some s'"
  using assms by (auto split: option.splits)

text \<open>A property that every single event keeps is kept by every sequence of events.\<close>

lemma run_invariant:
  assumes "run evs s = Some s'" and "Q s"
    and "\<And>e s1 s2. step e s1 = Some s2 \<Longrightarrow> Q s1 \<Longrightarrow> Q s2"
  shows "Q s'"
  using assms(1,2)
proof (induction evs arbitrary: s)
  case Nil
  then show ?case by simp
next
  case (Cons e es)
  from Cons.prems(1) obtain s1 where s1: "step e s = Some s1" and r: "run es s1 = Some s'"
    by (rule run_Cons_Some)
  from assms(3)[OF s1 Cons.prems(2)] have "Q s1" .
  with r show ?case by (rule Cons.IH)
qed

subsection \<open>A cleared timer stays cleared\<close>

lemma map_of_clear:
  "map_of xs h = None \<Longrightarrow> map_of (filter (\<lambda>(h', t). h' \<noteq> x) xs) h = None"
  by (induction xs) auto

lemma map_of_cleared: "map_of (filter (\<lambda>(h', t). h' \<noteq> h) xs) h = None"
  by (induction xs) auto

lemma resume_stopped:
  assumes "stopped h s"
  shows "stopped h (resume k r s) \<and> poll_requests h (resume k r s) = poll_requests h s"
  using assms
  by (cases k; cases r)
     (auto simp: resume_def stopped_def poll_requests_def handler_defs Let_def map_of_clear
           split: option.splits)

lemma step_stopped:
  assumes "step e s = Some s'" and "stopped h s"
  shows "stopped h s' \<and> e \<noteq> Tick h \<and> poll_requests h s' = poll_requests h s"
proof (cases e)
  case (Settle k r)
  let ?s0 = "s\<lparr>pending := take k (pending s) @ drop (Suc k) (pending s)\<rparr>"
  have "stopped h ?s0" "poll_requests h ?s0 = poll_requests h s"
    using assms(2) by (simp_all add: stopped_def poll_requests_def)
  moreover have "s' = resume (pending s ! k) r ?s0"
    using assms(1) Settle by (simp add: step_def product_event_def split: if_splits)
  ultimately show ?thesis
    using resume_stopped[of h ?s0 "pending s ! k" r] Settle by simp
next
  case (Tick h')
  then show ?thesis
    using assms
    by (auto simp: step_def product_event_def tick_def stopped_def poll_requests_def fetch_def
             split: option.splits)
qed (use assms in \<open>auto simp: step_def product_event_def stopped_def poll_requests_def
        handler_defs Let_def split: option.splits if_splits sum.splits list.splits\<close>)

lemma run_stopped:
  "run evs s = Some s' \<Longrightarrow> stopped h s \<Longrightarrow>
     stopped h s' \<and> Tick h \<notin> set evs \<and> poll_requests h s' = poll_requests h s"
proof (induction evs arbitrary: s)
  case Nil
  then show ?case by simp
next
  case (Cons e es)
  from Cons.prems(1) obtain s1 where s1: "step e s = Some s1" and r: "run es s1 = Some s'"
    by (rule run_Cons_Some)
  from step_stopped[OF s1 Cons.prems(2)] Cons.IH[OF r] show ?case by auto
qed

subsection \<open>Who writes \<open>currentFile\<close>, and which files are uploaded\<close>

lemma uploaded_append: "uploaded (xs @ ys) = uploaded xs @ uploaded ys"
  by (induction xs) (auto split: body.splits)

lemma resume_currentFile:
  "currentFile (resume k r s) = currentFile s
   \<and> uploaded (fetched (resume k r s)) = uploaded (fetched s)"
  by (cases k; cases r)
     (auto simp: resume_def handler_defs Let_def uploaded_append split: option.splits)

lemma step_currentFile:
  assumes "step e s = Some s'"
  shows "currentFile s' =
     (if validated [e] = [] then currentFile s else Some (last (validated [e])))"
proof (cases e)
  case (Settle k r)
  then show ?thesis
    using assms resume_currentFile
    by (auto simp: step_def product_event_def validated_def chosen_def split: if_splits)
next
  case (Drop files)
  then show ?thesis
    using assms
    by (cases files) (auto simp: step_def product_event_def validated_def chosen_def handler_defs)
next
  case (FileSelected files)
  then show ?thesis
    using assms
    by (cases files) (auto simp: step_def product_event_def validated_def chosen_def handler_defs)
qed (use assms in \<open>auto simp: step_def product_event_def validated_def chosen_def handler_defs
        Let_def split: option.splits if_splits\<close>)

lemma step_uploaded:
  assumes "step e s = Some s'"
  shows "set (uploaded (fetched s')) \<subseteq>
     set (uploaded (fetched s)) \<union> set (validated [e]) \<union> set_option (currentFile s)"
proof (cases e)
  case (Settle k r)
  then show ?thesis
    using assms resume_currentFile[of "pending s ! k" r]
    by (auto simp: step_def product_event_def split: if_splits)
next
  case (Drop files)
  then show ?thesis
    using assms
    by (cases files)
       (auto simp: step_def product_event_def validated_def chosen_def handler_defs
          uploaded_append)
next
  case (FileSelected files)
  then show ?thesis
    using assms
    by (cases files)
       (auto simp: step_def product_event_def validated_def chosen_def handler_defs
          uploaded_append)
qed (use assms in \<open>auto simp: step_def product_event_def validated_def chosen_def handler_defs
        Let_def uploaded_append split: option.splits if_splits\<close>)

lemma validated_Cons: "validated (e # es) = validated [e] @ validated es"
  by (simp add: validated_def)

lemma validated_valid: "f \<in> set (validated evs) \<Longrightarrow> endsWith (file_name f) ''.csv''"
  by (simp add: validated_def)

lemma run_currentFile:
  "run evs s0 = Some s \<Longrightarrow>
     currentFile s =
       (if validated evs = [] then currentFile s0 else Some (last (validated evs)))"
proof (induction evs arbitrary: s0)
  case Nil
  then show ?case by (simp add: validated_def)
next
  case (Cons e es)
  from Cons.prems obtain s1 where s1: "step e s0 = Some s1" and r: "run es s1 = Some s"
    by (rule run_Cons_Some)
  show ?case
    using step_currentFile[OF s1] Cons.IH[OF r]
    by (simp add: validated_Cons[of e es])
qed

lemma step_only_csv:
  assumes "step e s = Some s1" and "only_csv s"
  shows "only_csv s1"
  unfolding only_csv_def
proof
  fix f
  assume f: "f \<in> set (uploaded (fetched s1)) \<union> set_option (currentFile s1)"
  show "endsWith (file_name f) ''.csv''"
  proof (cases "f \<in> set (validated [e])")
    case True
    then show ?thesis by (rule validated_valid)
  next
    case fresh: False
    have "f \<in> set (uploaded (fetched s)) \<union> set_option (currentFile s)"
    proof (cases "f \<in> set (uploaded (fetched s1))")
      case True
      then show ?thesis using step_uploaded[OF assms(1)] fresh by auto
    next
      case False
      with f have "currentFile s1 = Some f" by auto
      then show ?thesis
        using step_currentFile[OF assms(1)] fresh by (auto split: if_splits)
    qed
    then show ?thesis using assms(2) by (simp add: only_csv_def)
  qed
qed

lemma run_only_csv: "run evs s0 = Some s \<Longrightarrow> only_csv s0 \<Longrightarrow> only_csv s"
  by (rule run_invariant[where Q = only_csv]) (auto intro: step_only_csv)

subsection \<open>One bulk delete at a time\<close>

lemma count_list_remove_nth:
  assumes "k < length xs"
  shows "count_list xs x =
     count_list (take k xs @ drop (Suc k) xs) x + (if xs ! k = x then 1 else 0)"
proof -
  have "count_list xs x = count_list (take k xs @ xs ! k # drop (Suc k) xs) x"
    using assms by (simp only: id_take_nth_drop[symmetric])
  then show ?thesis by simp
qed

lemma in_remove_nth: "x \<in> set (take k xs @ drop (Suc k) xs) \<Longrightarrow> x \<in> set xs"
  by (auto dest: in_set_takeD in_set_dropD)

lemma resume_bulk_inv:
  assumes "bulk_inv (s\<lparr>pending := ps\<rparr>)" and "k \<noteq> KBulk"
  shows "bulk_inv (resume k r (s\<lparr>pending := ps\<rparr>))"
  using assms
  by (cases k; cases r)
     (auto simp: bulk_inv_def resume_def handler_defs Let_def split: option.splits if_splits)

lemma settle_bulk_inv:
  assumes "bulk_inv s" and "k < length (pending s)"
  shows "bulk_inv (resume (pending s ! k) r
           (s\<lparr>pending := take k (pending s) @ drop (Suc k) (pending s)\<rparr>))"
proof (cases "pending s ! k = KBulk")
  case True
  have none: "count_list (take k (pending s) @ drop (Suc k) (pending s)) KBulk = 0"
    using assms True count_list_remove_nth[of k "pending s" KBulk]
    by (simp add: bulk_inv_def)
  then have "KBulk \<notin> set (take k (pending s) @ drop (Suc k) (pending s))"
    by (metis count_list_0_iff)
  then show ?thesis
    using True none
    by (cases r)
       (auto simp: bulk_inv_def resume_def handler_defs Let_def split: option.splits if_splits)
next
  case False
  have "count_list (take k (pending s) @ drop (Suc k) (pending s)) KBulk \<le> 1"
    using assms False count_list_remove_nth[of k "pending s" KBulk]
    by (simp add: bulk_inv_def)
  moreover have "KBulk \<in> set (take k (pending s) @ drop (Suc k) (pending s)) \<Longrightarrow>
      KBulk \<in> set (pending s)"
    by (rule in_remove_nth)
  ultimately have "bulk_inv (s\<lparr>pending := take k (pending s) @ drop (Suc k) (pending s)\<rparr>)"
    using assms(1) by (auto simp: bulk_inv_def split: if_splits)
  then show ?thesis using False by (rule resume_bulk_inv)
qed

lemma step_bulk_inv:
  assumes "step e s = Some s'" and "bulk_inv s"
  shows "bulk_inv s'"
proof (cases e)
  case (Settle k r)
  then show ?thesis
    using assms settle_bulk_inv[of s k r]
    by (auto simp: step_def product_event_def split: if_splits)
next
  case (BulkDeleteClick c)
  then show ?thesis
    using assms
    by (auto simp: step_def product_event_def bulk_inv_def handler_defs Let_def
          count_list_0_iff split: if_splits)
next
  case (Drop files)
  then show ?thesis
    using assms
    by (cases files)
       (auto simp: step_def product_event_def bulk_inv_def handler_defs Let_def
          split: if_splits)
next
  case (FileSelected files)
  then show ?thesis
    using assms
    by (cases files)
       (auto simp: step_def product_event_def bulk_inv_def handler_defs Let_def
          split: if_splits)
qed (use assms in \<open>auto simp: step_def product_event_def bulk_inv_def handler_defs Let_def
        split: option.splits if_splits\<close>)

lemma run_bulk_inv: "run evs s = Some s' \<Longrightarrow> bulk_inv s \<Longrightarrow> bulk_inv s'"
  by (rule run_invariant[where Q = bulk_inv]) (auto intro: step_bulk_inv)

subsection \<open>The page count and the escaping\<close>

lemma ceil_div_nat: "nat \<lceil>real n / real perPage\<rceil> = (n + 19) div 20"
proof -
  have "\<lceil>real n / real perPage\<rceil> = \<lceil>(of_int (int n) :: real) / of_int 20\<rceil>"
    by (simp add: perPage_def)
  also have "\<dots> = - (- int n div 20)"
    by (rule ceiling_divide_eq_div)
  also have "\<dots> = int ((n + 19) div 20)"
    by (simp add: zdiv_int)
  finally show ?thesis by simp
qed

lemma or_one: "(if c = 0 then 1 else c) = max 1 (c::nat)"
  by (cases c) auto

lemma pageCount_Some: "pageCount (Some t) = max 1 (nat \<lceil>real t / real perPage\<rceil>)"
  unfolding pageCount_def option.case Let_def by (rule or_one)

lemma escapeHtml_concat: "escapeHtml t = concat (map escapeHtml_char t)"
  by (induction t) (auto simp: escape_class_def escape_map_def escapeHtml_char_def)

section \<open>The upload\<close>

text \<open>
  Claim C1. For every file \<open>f\<close> handed to \<^verbatim>\<open>handleFiles\<close> (the first of the
  selected or dropped files; the listener of the file input does nothing
  else), a request is sent if and only if the name of \<open>f\<close>
  ends with \<^verbatim>\<open>.csv\<close>, that is, is some stem followed by exactly these four
  characters; the request is then the one upload of \<open>f\<close>. When the name does not
  end so, nothing is sent, no promise is pending, and the status line shows the
  validation message.
\<close>

theorem handleFiles_network_call:
  "\<exists>s'. handleFiles (f # rest) s = Inr s'
     \<and> step (FileSelected (f # rest)) s = Some s'
     \<and> (fetched s' \<noteq> fetched s \<longleftrightarrow> endsWith (file_name f) ''.csv'')
     \<and> (endsWith (file_name f) ''.csv'' \<longleftrightarrow> (\<exists>stem. file_name f = stem @ ''.csv''))
     \<and> (endsWith (file_name f) ''.csv'' \<longrightarrow>
          fetched s' = fetched s @
            [\<lparr>req_method = ''POST'', req_url = ''/upload'', req_body = FormData f,
              req_then = KUpload\<rparr>])
     \<and> (\<not> endsWith (file_name f) ''.csv'' \<longrightarrow>
          fetched s' = fetched s \<and> pending s' = pending s
          \<and> status_textContent s' = ''Please upload a valid CSV file.'')"
  by (simp add: step_def product_event_def handleFiles_def uploadCSV_def fetch_def
        endsWith_iff)

text \<open>
  The file \<^verbatim>\<open>data.csv\<close> is uploaded; \<^verbatim>\<open>data.CSV\<close> is rejected with the message
  and without a request, the comparison being case-sensitive.
\<close>

theorem handleFiles_network_call_witness:
  "urls_after [FileSelected [data_csv]] initial_page = Some [''/upload'']
   \<and> urls_after [FileSelected [upper_case_csv]] initial_page = Some []
   \<and> status_after [FileSelected [upper_case_csv]] initial_page
       = Some ''Please upload a valid CSV file.''"
  using handleFiles_network_call [of data_csv "[]" initial_page]
    handleFiles_network_call [of upper_case_csv "[]" initial_page]
  by (simp add: urls_after_def status_after_def run_defs)

text \<open>
  Claim C9. From a page on which no file is tracked and nothing has been sent,
  after every sequence of events: \<^verbatim>\<open>currentFile\<close> is the last file that passed
  the validation of \<^verbatim>\<open>handleFiles\<close> (none when no file has passed), so its name
  ends with \<^verbatim>\<open>.csv\<close>; every file that any upload request has carried has such a
  name; and a click on the retry button sends exactly one upload of that last
  validated file, or nothing when there is none.
\<close>

theorem currentFile_invariant:
  assumes "run evs s0 = Some s" and "currentFile s0 = None" and "fetched s0 = []"
  shows "currentFile s = (if validated evs = [] then None else Some (last (validated evs)))
     \<and> (\<forall>f. currentFile s = Some f \<longrightarrow> endsWith (file_name f) ''.csv'')
     \<and> (\<forall>f \<in> set (uploaded (fetched s)). endsWith (file_name f) ''.csv'')
     \<and> (validated evs = [] \<longrightarrow> step RetryClick s = Some s)
     \<and> (validated evs \<noteq> [] \<longrightarrow>
          (\<exists>s'. step RetryClick s = Some s'
             \<and> fetched s' = fetched s @
                 [\<lparr>req_method = ''POST'', req_url = ''/upload'',
                   req_body = FormData (last (validated evs)), req_then = KUpload\<rparr>]))"
proof -
  have cf: "currentFile s = (if validated evs = [] then None else Some (last (validated evs)))"
    using run_currentFile[OF assms(1)] assms(2) by simp
  have inv: "\<forall>f \<in> set (uploaded (fetched s)) \<union> set_option (currentFile s).
      endsWith (file_name f) ''.csv''"
    using run_only_csv[OF assms(1)] assms(2,3) by (simp add: only_csv_def)
  show ?thesis
    using cf inv by (auto simp: step_def product_event_def uploadCSV_def fetch_def)
qed

text \<open>
  After a failed upload of \<^verbatim>\<open>data.csv\<close> and a rejected \<^verbatim>\<open>notes.txt\<close>, the retry
  click uploads \<^verbatim>\<open>data.csv\<close> again.
\<close>

theorem currentFile_invariant_witness:
  "currentFile_after failed_then_rejected initial_page = Some (Some data_csv)
   \<and> validated failed_then_rejected = [data_csv]
   \<and> urls_after failed_then_rejected initial_page = Some [''/upload'', ''/upload'']"
  using currentFile_invariant [of failed_then_rejected initial_page
      "the (run failed_then_rejected initial_page)"]
  by (simp add: currentFile_after_def urls_after_def failed_then_rejected_def validated_def
        chosen_def run_defs)

section \<open>The progress poll\<close>

text \<open>
  Claim C2, as amended. When the callback of a progress request of the timer \<open>h\<close>
  receives a response whose state is \<^verbatim>\<open>SUCCESS\<close>, the timer is cleared, the status
  line reads \<^verbatim>\<open>Import Complete!\<close>, and this response sends exactly one request
  for the product list; whatever happens afterwards, the timer never fires
  again and sends no further progress request. (Responses to requests that
  were already sent are still handled, each on its own.)
\<close>

theorem pollProgress_success:
  assumes "state d = Some ''SUCCESS''" and "h < next_handle s"
  shows "map_of (intervals (pollProgress_then h (Json d) s)) h = None
     \<and> status_textContent (pollProgress_then h (Json d) s) = ''Import Complete!''
     \<and> fetched (pollProgress_then h (Json d) s) = fetched s @
          [\<lparr>req_method = ''GET'', req_url = list_url s, req_body = NoBody, req_then = KList\<rparr>]
     \<and> (\<forall>evs s'. run evs (pollProgress_then h (Json d) s) = Some s' \<longrightarrow>
          Tick h \<notin> set evs
          \<and> poll_requests h s' = poll_requests h s
          \<and> map_of (intervals s') h = None)"
proof -
  let ?s = "pollProgress_then h (Json d) s"
  have now: "map_of (intervals ?s) h = None
     \<and> status_textContent ?s = ''Import Complete!''
     \<and> fetched ?s = fetched s @
          [\<lparr>req_method = ''GET'', req_url = list_url s, req_body = NoBody, req_then = KList\<rparr>]"
    using assms(1) by (simp add: handler_defs Let_def list_url_def map_of_cleared)
  have st: "stopped h ?s"
    using assms by (simp add: stopped_def handler_defs Let_def map_of_cleared)
  have same: "poll_requests h ?s = poll_requests h s"
    using assms(1) by (simp add: poll_requests_def handler_defs Let_def)
  have later: "Tick h \<notin> set evs \<and> poll_requests h s' = poll_requests h s
       \<and> map_of (intervals s') h = None"
    if "run evs ?s = Some s'" for evs s'
    using run_stopped[OF that st] same by (simp add: stopped_def)
  show ?thesis using now later by blast
qed

theorem pollProgress_success_witness:
  "status_textContent
      (pollProgress_then 1 (Json (no_data\<lparr>state := Some ''SUCCESS''\<rparr>))
         (pollProgress ''abc'' initial_page)) = ''Import Complete!''
   \<and> tick 1 (pollProgress_then 1 (Json (no_data\<lparr>state := Some ''SUCCESS''\<rparr>))
         (pollProgress ''abc'' initial_page)) = None
   \<and> tick 1 (pollProgress ''abc'' initial_page) \<noteq> None"
  using pollProgress_success [of "no_data\<lparr>state := Some ''SUCCESS''\<rparr>" 1
      "pollProgress ''abc'' initial_page"]
  by (simp add: tick_def pollProgress_def initial_page_def no_data_def)

text \<open>
  Claim C2 as stated fails: the timer fires every second whether or not the
  previous request has been answered, so two progress requests can be waiting
  when the task finishes. Both are answered \<^verbatim>\<open>SUCCESS\<close>, and the product list is
  requested twice.
\<close>

theorem two_successes_reload_twice:
  "urls_after two_successes initial_page =
     Some [''/upload'', ''/progress/abc'', ''/progress/abc'',
           ''/api/products?page=1&per_page=20&search=&active='',
           ''/api/products?page=1&per_page=20&search=&active='']
   \<and> reloads_after two_successes initial_page = Some 2"
  by (simp add: urls_after_def reloads_after_def reload_requests_def two_successes_def
        two_in_flight_def run_defs)

text \<open>
  Claim C3, as amended. When the callback of a progress request of the timer \<open>h\<close>
  receives a response whose state is \<^verbatim>\<open>FAILURE\<close>, the timer is cleared and never
  fires again, the retry button is shown, and the status line reads
  \<^verbatim>\<open>Failed: \<close> followed by the \<^verbatim>\<open>status\<close> property of the response, or by
  \<^verbatim>\<open>Error\<close> when that property is missing or empty.
\<close>

theorem pollProgress_failure:
  assumes "state d = Some ''FAILURE''" and "h < next_handle s"
  shows "map_of (intervals (pollProgress_then h (Json d) s)) h = None
     \<and> status_textContent (pollProgress_then h (Json d) s) =
         ''Failed: '' @
           (case status d of None \<Rightarrow> ''Error'' | Some t \<Rightarrow> if t = [] then ''Error'' else t)
     \<and> retryBtn_display (pollProgress_then h (Json d) s) = ''inline-block''
     \<and> fetched (pollProgress_then h (Json d) s) = fetched s
     \<and> (\<forall>evs s'. run evs (pollProgress_then h (Json d) s) = Some s' \<longrightarrow>
          Tick h \<notin> set evs
          \<and> poll_requests h s' = poll_requests h s
          \<and> map_of (intervals s') h = None)"
proof -
  let ?s = "pollProgress_then h (Json d) s"
  have now: "map_of (intervals ?s) h = None
     \<and> status_textContent ?s =
         ''Failed: '' @
           (case status d of None \<Rightarrow> ''Error'' | Some t \<Rightarrow> if t = [] then ''Error'' else t)
     \<and> retryBtn_display ?s = ''inline-block''
     \<and> fetched ?s = fetched s"
    using assms(1) by (simp add: handler_defs Let_def orElse_def map_of_cleared)
  have st: "stopped h ?s"
    using assms by (simp add: stopped_def handler_defs Let_def map_of_cleared)
  have same: "poll_requests h ?s = poll_requests h s"
    using assms(1) by (simp add: poll_requests_def handler_defs Let_def)
  have later: "Tick h \<notin> set evs \<and> poll_requests h s' = poll_requests h s
       \<and> map_of (intervals s') h = None"
    if "run evs ?s = Some s'" for evs s'
    using run_stopped[OF that st] same by (simp add: stopped_def)
  show ?thesis using now later by blast
qed

theorem pollProgress_failure_witness:
  "status_textContent
      (pollProgress_then 1 (Json (no_data\<lparr>state := Some ''FAILURE''\<rparr>))
         (pollProgress ''abc'' initial_page)) = ''Failed: Error''
   \<and> status_textContent
      (pollProgress_then 1
         (Json (no_data\<lparr>state := Some ''FAILURE'', status := Some ''Disk full''\<rparr>))
         (pollProgress ''abc'' initial_page)) = ''Failed: Disk full''
   \<and> tick 1 (pollProgress_then 1 (Json (no_data\<lparr>state := Some ''FAILURE''\<rparr>))
         (pollProgress ''abc'' initial_page)) = None"
  using pollProgress_failure [of "no_data\<lparr>state := Some ''FAILURE''\<rparr>" 1
      "pollProgress ''abc'' initial_page"]
    pollProgress_failure
      [of "no_data\<lparr>state := Some ''FAILURE'', status := Some ''Disk full''\<rparr>" 1
        "pollProgress ''abc'' initial_page"]
  by (simp add: tick_def pollProgress_def initial_page_def no_data_def)

text \<open>
  Claim C3 as stated fails: for the response
  \<^verbatim>\<open>{state: "FAILURE", status: "Disk full"}\<close> the status line is not the
  \<^verbatim>\<open>status\<close> property but that property behind the prefix \<^verbatim>\<open>Failed: \<close>.
\<close>

theorem failure_message_counterexample:
  "status_after one_failure initial_page = Some ''Failed: Disk full''
   \<and> status_after one_failure initial_page \<noteq> Some ''Disk full''"
  by (simp add: status_after_def one_failure_def run_defs)

text \<open>
  Claim C4, as amended. When the promise of a progress request of the timer \<open>h\<close>
  is rejected (the network failed, or the body could not be read as a JSON
  object), its \<^verbatim>\<open>catch\<close> callback clears the timer, shows
  \<^verbatim>\<open>Error fetching progress.\<close> and the retry button, and sends nothing; from the
  handling of this one rejection on, whatever happens, the timer never fires
  again and sends no further progress request. (Requests that the timer sent
  while the rejected one was waiting have been sent; they are not taken back.)
  A response whose body is a JSON object with a state other than \<^verbatim>\<open>SUCCESS\<close> and
  \<^verbatim>\<open>FAILURE\<close>, whatever its HTTP status, is no error to the script: the timers and
  the retry button stay as they are and the status line shows the \<^verbatim>\<open>status\<close>
  property or \<^verbatim>\<open>Processing...\<close>.
\<close>

theorem pollProgress_transport_error:
  assumes "h < next_handle s"
  shows "map_of (intervals (pollProgress_then h (Failed err) s)) h = None
     \<and> status_textContent (pollProgress_then h (Failed err) s) = ''Error fetching progress.''
     \<and> retryBtn_display (pollProgress_then h (Failed err) s) = ''inline-block''
     \<and> fetched (pollProgress_then h (Failed err) s) = fetched s
     \<and> (\<forall>evs s'. run evs (pollProgress_then h (Failed err) s) = Some s' \<longrightarrow>
          Tick h \<notin> set evs
          \<and> poll_requests h s' = poll_requests h s
          \<and> map_of (intervals s') h = None)
     \<and> (\<forall>d. state d \<noteq> Some ''SUCCESS'' \<and> state d \<noteq> Some ''FAILURE'' \<longrightarrow>
          intervals (pollProgress_then h (Json d) s) = intervals s
          \<and> retryBtn_display (pollProgress_then h (Json d) s) = retryBtn_display s
          \<and> fetched (pollProgress_then h (Json d) s) = fetched s
          \<and> status_textContent (pollProgress_then h (Json d) s) =
              (case status d of
                 None \<Rightarrow> ''Processing...''
               | Some t \<Rightarrow> if t = [] then ''Processing...'' else t))"
proof -
  let ?s = "pollProgress_then h (Failed err) s"
  have now: "map_of (intervals ?s) h = None
     \<and> status_textContent ?s = ''Error fetching progress.''
     \<and> retryBtn_display ?s = ''inline-block''
     \<and> fetched ?s = fetched s"
    by (simp add: handler_defs map_of_cleared)
  have st: "stopped h ?s"
    using assms by (simp add: stopped_def handler_defs map_of_cleared)
  have same: "poll_requests h ?s = poll_requests h s"
    by (simp add: poll_requests_def handler_defs)
  have later: "Tick h \<notin> set evs \<and> poll_requests h s' = poll_requests h s
       \<and> map_of (intervals s') h = None"
    if "run evs ?s = Some s'" for evs s'
    using run_stopped[OF that st] same by (simp add: stopped_def)
  have other: "intervals (pollProgress_then h (Json d) s) = intervals s
          \<and> retryBtn_display (pollProgress_then h (Json d) s) = retryBtn_display s
          \<and> fetched (pollProgress_then h (Json d) s) = fetched s
          \<and> status_textContent (pollProgress_then h (Json d) s) =
              (case status d of
                 None \<Rightarrow> ''Processing...''
               | Some t \<Rightarrow> if t = [] then ''Processing...'' else t)"
    if "state d \<noteq> Some ''SUCCESS''" "state d \<noteq> Some ''FAILURE''" for d
    using that by (simp add: handler_defs Let_def orElse_def)
  show ?thesis using now later other by blast
qed

theorem pollProgress_transport_error_witness:
  "status_textContent
      (pollProgress_then 1 (Failed ''TypeError: Failed to fetch'')
         (pollProgress ''abc'' initial_page)) = ''Error fetching progress.''
   \<and> retryBtn_display
      (pollProgress_then 1 (Failed ''TypeError: Failed to fetch'')
         (pollProgress ''abc'' initial_page)) = ''inline-block''
   \<and> tick 1 (pollProgress_then 1 (Failed ''TypeError: Failed to fetch'')
         (pollProgress ''abc'' initial_page)) = None
   \<and> status_textContent
      (pollProgress_then 1 (Json (no_data\<lparr>message := Some ''Internal Server Error''\<rparr>))
         (pollProgress ''abc'' initial_page)) = ''Processing...''
   \<and> tick 1
      (pollProgress_then 1 (Json (no_data\<lparr>message := Some ''Internal Server Error''\<rparr>))
         (pollProgress ''abc'' initial_page)) \<noteq> None"
  using pollProgress_transport_error [of 1 "pollProgress ''abc'' initial_page"
      "''TypeError: Failed to fetch''"]
  by (simp add: tick_def pollProgress_def initial_page_def no_data_def)

text \<open>
  Claim C4 as stated fails twice. The timer fires every second whether or not
  the previous request has been answered: after the tick whose request will be
  rejected (one progress request sent) the timer fires again and sends a second
  one before the rejection is handled. And an answer with an error status and
  a JSON body is not an error to the script, which never reads \<^verbatim>\<open>res.ok\<close>: the
  status line shows \<^verbatim>\<open>Processing...\<close>, the retry button stays hidden, and the
  next tick sends another progress request.
\<close>

theorem transport_error_counterexample:
  "urls_after (take 3 first_of_two_fails) initial_page = Some [''/upload'', ''/progress/abc'']
   \<and> urls_after first_of_two_fails initial_page =
       Some [''/upload'', ''/progress/abc'', ''/progress/abc'']
   \<and> status_after first_of_two_fails initial_page = Some ''Error fetching progress.''
   \<and> urls_after server_error_with_body initial_page =
       Some [''/upload'', ''/progress/abc'', ''/progress/abc'']
   \<and> status_after server_error_with_body initial_page = Some ''Processing...''
   \<and> retryBtn_after server_error_with_body initial_page = Some ''none''"
  by (simp add: urls_after_def status_after_def retryBtn_after_def first_of_two_fails_def
        two_in_flight_def server_error_with_body_def run_defs)

section \<open>The product table\<close>

text \<open>
  Claim C6. For every response to the list request that carries the products,
  a page number \<open>x\<close> and a total \<open>t\<close>, the label reads \<^verbatim>\<open>Page x of y\<close> with \<open>y\<close> the
  ceiling of \<open>t / 20\<close>, and 1 when that is 0; for page 1 and a total of 45 it reads
  \<^verbatim>\<open>Page 1 of 3\<close>, for page 1 and a total of 0 \<^verbatim>\<open>Page 1 of 1\<close>.
\<close>

theorem page_label:
  assumes "products d = Some ps" and "page d = Some x" and "total d = Some t"
  shows "pageInfo_textContent (loadProducts_then (Json d) s) =
           ''Page '' @ toString x @ '' of ''
             @ toString (max 1 (nat \<lceil>real t / real perPage\<rceil>))
     \<and> nat \<lceil>real t / real perPage\<rceil> = (t + 19) div 20
     \<and> (x = 1 \<and> t = 45 \<longrightarrow>
          pageInfo_textContent (loadProducts_then (Json d) s) = ''Page 1 of 3'')
     \<and> (x = 1 \<and> t = 0 \<longrightarrow>
          pageInfo_textContent (loadProducts_then (Json d) s) = ''Page 1 of 1'')"
proof -
  have label: "pageInfo_textContent (loadProducts_then (Json d) s) =
           ''Page '' @ toString x @ '' of ''
             @ toString (max 1 (nat \<lceil>real t / real perPage\<rceil>))"
    using assms
    by (simp add: loadProducts_then_def renderProductsTable_def pageCount_Some templateNat_def)
  show ?thesis
    unfolding label ceil_div_nat by (simp add: toString.simps)
qed

theorem page_label_witness:
  "pageInfo_textContent
     (loadProducts_then
        (Json (no_data\<lparr>products := Some [], page := Some 1, total := Some 45\<rparr>))
        initial_page) = ''Page 1 of 3''
   \<and> pageInfo_textContent
     (loadProducts_then
        (Json (no_data\<lparr>products := Some [], page := Some 1, total := Some 0\<rparr>))
        initial_page) = ''Page 1 of 1''
   \<and> pageInfo_textContent
     (loadProducts_then
        (Json (no_data\<lparr>products := Some [], page := Some 2, total := Some 40\<rparr>))
        initial_page) = ''Page 2 of 2''"
  using page_label
      [of "no_data\<lparr>products := Some [], page := Some 1, total := Some 45\<rparr>" "[]" 1 45
        initial_page]
    page_label
      [of "no_data\<lparr>products := Some [], page := Some 1, total := Some 0\<rparr>" "[]" 1 0
        initial_page]
    page_label
      [of "no_data\<lparr>products := Some [], page := Some 2, total := Some 40\<rparr>" "[]" 2 40
        initial_page]
  by (simp add: no_data_def toString.simps)

section \<open>Saving\<close>

text \<open>
  Claim C5. When the sku field or the name field of the product form is empty,
  the submit listener sends no request and leaves no promise pending, shows the
  alert \<^verbatim>\<open>SKU and Name are required.\<close>, and leaves the modal and the form as
  they are.
\<close>

theorem saveProduct_validation:
  assumes "form_sku (productForm s) = [] \<or> form_name (productForm s) = []"
  shows "fetched (saveProduct s) = fetched s
     \<and> pending (saveProduct s) = pending s
     \<and> alerts (saveProduct s) = alerts s @ [''SKU and Name are required.'']
     \<and> modal_display (saveProduct s) = modal_display s
     \<and> productForm (saveProduct s) = productForm s"
  using assms by (auto simp: saveProduct_def alert_def Let_def)

theorem saveProduct_validation_witness:
  "alerts (saveProduct (editProduct 7 [] ''Lamp'' ''A lamp'' True initial_page))
     = [''SKU and Name are required.'']
   \<and> fetched (saveProduct (editProduct 7 [] ''Lamp'' ''A lamp'' True initial_page)) = []
   \<and> modal_display (saveProduct (editProduct 7 [] ''Lamp'' ''A lamp'' True initial_page))
     = ''block''
   \<and> alerts (saveProduct (editProduct 7 ''L-1'' [] ''A lamp'' True initial_page))
     = [''SKU and Name are required.'']"
  using saveProduct_validation [of "editProduct 7 [] ''Lamp'' ''A lamp'' True initial_page"]
    saveProduct_validation [of "editProduct 7 ''L-1'' [] ''A lamp'' True initial_page"]
  by (simp add: editProduct_def openModal_def initial_page_def)

text \<open>
  Claim C8. A product form that passes the validation is sent by
  \<^verbatim>\<open>POST /api/products\<close>, whatever its id field holds (the id travels in the
  body); a form that does not pass is not sent. A webhook form is sent by
  \<^verbatim>\<open>PUT /api/webhooks/{id}\<close> when its id field is not empty and by
  \<^verbatim>\<open>POST /api/webhooks\<close> when it is.
\<close>

theorem save_method_and_path:
  "(if form_sku (productForm s) \<noteq> [] \<and> form_name (productForm s) \<noteq> [] then
      fetched (saveProduct s) = fetched s @
        [\<lparr>req_method = ''POST'', req_url = ''/api/products'',
          req_body = ProductJson (productForm s), req_then = KSave\<rparr>]
    else fetched (saveProduct s) = fetched s)
   \<and> (if webhookId_value (webhookForm w) \<noteq> [] then
        webhooks_fetched (saveWebhook w) = webhooks_fetched w @
          [\<lparr>wreq_method = ''PUT'',
            wreq_url = ''/api/webhooks/'' @ webhookId_value (webhookForm w),
            wreq_body = Some (url_value (webhookForm w), event_type_value (webhookForm w),
                              enabled_checked (webhookForm w))\<rparr>]
      else
        webhooks_fetched (saveWebhook w) = webhooks_fetched w @
          [\<lparr>wreq_method = ''POST'', wreq_url = ''/api/webhooks'',
            wreq_body = Some (url_value (webhookForm w), event_type_value (webhookForm w),
                              enabled_checked (webhookForm w))\<rparr>])"
  by (simp add: saveProduct_def saveWebhook_def fetch_def alert_def Let_def)

text \<open>
  An edited product (id 7) is posted to \<^verbatim>\<open>/api/products\<close>; an edited webhook
  (id 5) is put to \<^verbatim>\<open>/api/webhooks/5\<close>, a new one posted to \<^verbatim>\<open>/api/webhooks\<close>.
\<close>

theorem save_method_and_path_witness:
  "map req_method
     (fetched (saveProduct (editProduct 7 ''L-1'' ''Lamp'' ''A lamp'' True initial_page)))
     = [''POST'']
   \<and> map req_url
     (fetched (saveProduct (editProduct 7 ''L-1'' ''Lamp'' ''A lamp'' True initial_page)))
     = [''/api/products'']
   \<and> map wreq_method
     (webhooks_fetched
        (saveWebhook (editWebhook 5 ''https://example.org/hook'' ''product.created'' True
           initial_webhooks_page)))
     = [''PUT'']
   \<and> map wreq_url
     (webhooks_fetched
        (saveWebhook (editWebhook 5 ''https://example.org/hook'' ''product.created'' True
           initial_webhooks_page)))
     = [''/api/webhooks/5'']
   \<and> map wreq_method
     (webhooks_fetched (saveWebhook (openModal_webhooks initial_webhooks_page))) = [''POST'']
   \<and> map wreq_url
     (webhooks_fetched (saveWebhook (openModal_webhooks initial_webhooks_page)))
     = [''/api/webhooks'']"
  using save_method_and_path
      [of "editProduct 7 ''L-1'' ''Lamp'' ''A lamp'' True initial_page"
        "editWebhook 5 ''https://example.org/hook'' ''product.created'' True
           initial_webhooks_page"]
    save_method_and_path [of initial_page "openModal_webhooks initial_webhooks_page"]
  by (simp add: editProduct_def openModal_def initial_page_def editWebhook_def
        openModal_webhooks_def initial_webhooks_page_def toString.simps)

section \<open>Deleting all products\<close>

text \<open>
  Claim C7. On a page whose bulk-delete button is enabled, carries the label
  \<^verbatim>\<open>Delete All Products\<close> and has no bulk delete waiting: the click asks for
  confirmation first; declined, nothing is sent and the button stays as it is;
  confirmed, the one request \<^verbatim>\<open>POST /api/products/bulk_delete\<close> is sent, and
  through every sequence of events the button is disabled and reads
  \<^verbatim>\<open>Deleting...\<close> for as long as that request waits. However the request
  settles (success, a failure reported by the server, or an exception), the
  button is enabled again under its original label; on success an alert with
  the deleted count is shown and the product list is requested.
\<close>

theorem bulkDelete_control:
  assumes "\<not> bulkBtn_disabled s" and "KBulk \<notin> set (pending s)"
    and "bulkBtn_textContent s = ''Delete All Products''"
  shows "confirms (bulkDeleteProducts c s) = confirms s @ [''Are you sure? This cannot be undone.'']
     \<and> fetched (bulkDeleteProducts False s) = fetched s
     \<and> \<not> bulkBtn_disabled (bulkDeleteProducts False s)
     \<and> bulkBtn_textContent (bulkDeleteProducts False s) = bulkBtn_textContent s
     \<and> fetched (bulkDeleteProducts True s) = fetched s @
          [\<lparr>req_method = ''POST'', req_url = ''/api/products/bulk_delete'', req_body = NoBody,
            req_then = KBulk\<rparr>]
     \<and> (\<forall>evs s'. run evs (bulkDeleteProducts True s) = Some s' \<longrightarrow>
          (KBulk \<in> set (pending s') \<longrightarrow>
             bulkBtn_disabled s' \<and> bulkBtn_textContent s' = ''Deleting...'')
          \<and> (\<forall>k r s''. k < length (pending s') \<and> pending s' ! k = KBulk
                \<and> step (Settle k r) s' = Some s'' \<longrightarrow>
                \<not> bulkBtn_disabled s'' \<and> bulkBtn_textContent s'' = bulkBtn_textContent s
                \<and> (\<forall>d. r = Json d \<and> status d = Some ''success'' \<longrightarrow>
                      alerts s'' = alerts s' @
                        [''All products deleted ('' @ templateNat (deleted_count d) @ '')'']
                      \<and> fetched s'' = fetched s' @
                        [\<lparr>req_method = ''GET'', req_url = list_url s', req_body = NoBody,
                          req_then = KList\<rparr>])))"
proof -
  have start: "bulk_inv (bulkDeleteProducts True s)"
    using assms by (simp add: bulk_inv_def handler_defs Let_def count_list_0_iff)
  have during: "KBulk \<in> set (pending s') \<longrightarrow>
             bulkBtn_disabled s' \<and> bulkBtn_textContent s' = ''Deleting...''"
    if "run evs (bulkDeleteProducts True s) = Some s'" for evs s'
    using run_bulk_inv[OF that start] by (simp add: bulk_inv_def split: if_splits)
  have after: "\<not> bulkBtn_disabled s'' \<and> bulkBtn_textContent s'' = bulkBtn_textContent s
                \<and> (\<forall>d. r = Json d \<and> status d = Some ''success'' \<longrightarrow>
                      alerts s'' = alerts s' @
                        [''All products deleted ('' @ templateNat (deleted_count d) @ '')'']
                      \<and> fetched s'' = fetched s' @
                        [\<lparr>req_method = ''GET'', req_url = list_url s', req_body = NoBody,
                          req_then = KList\<rparr>])"
    if "k < length (pending s')" "pending s' ! k = KBulk" "step (Settle k r) s' = Some s''"
    for k r s' s''
    using that assms(3)
    by (cases r)
       (auto simp: step_def product_event_def resume_def handler_defs Let_def list_url_def)
  have asked: "confirms (bulkDeleteProducts c s) =
      confirms s @ [''Are you sure? This cannot be undone.'']"
    by (simp add: handler_defs Let_def)
  have declined: "fetched (bulkDeleteProducts False s) = fetched s
     \<and> \<not> bulkBtn_disabled (bulkDeleteProducts False s)
     \<and> bulkBtn_textContent (bulkDeleteProducts False s) = bulkBtn_textContent s"
    using assms(1) by (simp add: handler_defs Let_def)
  have sent: "fetched (bulkDeleteProducts True s) = fetched s @
          [\<lparr>req_method = ''POST'', req_url = ''/api/products/bulk_delete'', req_body = NoBody,
            req_then = KBulk\<rparr>]"
    by (simp add: handler_defs Let_def)
  show ?thesis
    using asked declined sent during after by blast
qed

text \<open>
  The page loads, the user confirms the bulk delete, and the server answers
  \<^verbatim>\<open>{status: "success", deleted_count: 7}\<close>.
\<close>

theorem bulkDelete_control_witness:
  "bulkBtn_after [PageLoaded, BulkDeleteClick True] initial_page = Some (True, ''Deleting...'')
   \<and> bulkBtn_after bulk_delete_seven initial_page = Some (False, ''Delete All Products'')
   \<and> alerts_after bulk_delete_seven initial_page = Some [''All products deleted (7)'']
   \<and> urls_after bulk_delete_seven initial_page =
       Some [''/api/products?page=1&per_page=20&search=&active='',
             ''/api/products/bulk_delete'',
             ''/api/products?page=1&per_page=20&search=&active='']
   \<and> urls_after [PageLoaded, BulkDeleteClick False] initial_page =
       Some [''/api/products?page=1&per_page=20&search=&active='']"
  using bulkDelete_control [of "loadProducts (initial_page\<lparr>listening := True\<rparr>)" True]
  by (simp add: bulkBtn_after_def alerts_after_def urls_after_def bulk_delete_seven_def
        run_defs)

section \<open>Escaping\<close>

text \<open>
  Claim C10. \<^verbatim>\<open>escapeHtml\<close> replaces every character of its argument on its own:
  each of the five characters by its entity, every other character by itself.
  The rows of the webhook table hold the url and the event type of each
  webhook as \<^verbatim>\<open>escapeHtml\<close> returns them; the rows of the product table hold the
  sku, the name and the description of each product as the server sent them.
\<close>

theorem escapeHtml_and_rows:
  \<open>escapeHtml t = concat (map escapeHtml_char t)
   \<and> escapeHtml (t @ u) = escapeHtml t @ escapeHtml u
   \<and> (ws \<noteq> [] \<longrightarrow>
        webhooks_tbody_rows (loadWebhooks_then (Webhooks ws) wp) = map webhook_row ws)
   \<and> (\<exists>rest. webhook_row w =
        ''\<newline>                    <td>'' @ escapeHtml (webhook_url w) @ ''</td>''
        @ ''\<newline>                    <td>'' @ escapeHtml (webhook_event_type w) @ ''</td>''
        @ rest)
   \<and> (ps \<noteq> [] \<longrightarrow>
        tbody_rows (loadProducts_then (Json (d\<lparr>products := Some ps\<rparr>)) s) = map product_row ps)
   \<and> (\<exists>rest. product_row p =
        ''\<newline>            <td>'' @ product_sku p @ ''</td>''
        @ ''\<newline>            <td>'' @ product_name p @ ''</td>''
        @ ''\<newline>            <td>'' @ product_description p @ ''</td>'' @ rest)\<close>
  by (simp add: escapeHtml_concat loadWebhooks_then_def loadProducts_then_def
        renderProductsTable_def webhook_row_def product_row_def)

text \<open>
  A text with all five characters; a webhook whose url holds \<^verbatim>\<open>&\<close>, \<^verbatim>\<open><\<close> and
  \<^verbatim>\<open>>\<close>, escaped in its row; a product whose sku holds markup, unchanged in its
  row.
\<close>

theorem escapeHtml_and_rows_witness:
  \<open>escapeHtml ''<a href="x">Tom & Jerry's</a>''
     = ''&lt;a href=&quot;x&quot;&gt;Tom &amp; Jerry&#039;s&lt;/a&gt;''
   \<and> webhooks_tbody_rows (loadWebhooks_then (Webhooks [hook]) initial_webhooks_page)
     = [webhook_row hook]
   \<and> take 70 (webhook_row hook)
     = ''\<newline>                    <td>https://example.org/?a=1&amp;b=&lt;2&gt;</td>''
   \<and> tbody_rows (loadProducts_then (Json (no_data\<lparr>products := Some [lamp]\<rparr>)) initial_page)
     = [product_row lamp]
   \<and> take 32 (product_row lamp) = ''\<newline>            <td><b>L-1</b></td>''\<close>
  using escapeHtml_and_rows
      [where t = \<open>''<a href="x">Tom & Jerry's</a>''\<close> and ws = "[hook]"
         and wp = initial_webhooks_page and w = hook and ps = "[lamp]" and d = no_data
         and s = initial_page and p = lamp]
  by (simp add: escapeHtml_char_def webhook_row_def product_row_def hook_def lamp_def
        escape_class_def escape_map_def)

end
